theory Spec2Isabelle
  imports Main
begin

section \<open>Strings and argument lists\<close>

text \<open>
  A Go string is a sequence of bytes and \<open>len\<close> counts bytes; it is modelled as
  \<open>string\<close> (a list of 8-bit characters), with \<open>length\<close> for \<open>len\<close>.
\<close>

text \<open>
  \<open>strings.Join(elems, sep)\<close> of the Go standard library: the empty slice gives the
  empty string, a single element is returned as it is, otherwise the first element is
  written and every further element is written after one separator.
\<close>

fun write_rest :: "string \<Rightarrow> string list \<Rightarrow> string" where
  "write_rest sep [] = []"
| "write_rest sep (s # ss) = sep @ s @ write_rest sep ss"

fun strings_Join :: "string list \<Rightarrow> string \<Rightarrow> string" where
  "strings_Join [] sep = []"
| "strings_Join [e] sep = e"
| "strings_Join (e # es) sep = e @ write_rest sep es"

text \<open>
  \<open>strings.Contains(s, substr)\<close>: \<open>substr\<close> occurs in \<open>s\<close> at some position.
\<close>

fun strings_Contains :: "string \<Rightarrow> string \<Rightarrow> bool" where
  "strings_Contains [] substr = (substr = [])"
| "strings_Contains (c # cs) substr =
     (take (length substr) (c # cs) = substr \<or> strings_Contains cs substr)"

text \<open>
  \<open>cli.Args\<close> is a slice of strings. \<open>Get(n)\<close> returns the n-th argument, or the
  empty string when there is none; \<open>Tail()\<close> returns everything after the first
  argument when there are at least two, and the empty slice otherwise.
\<close>

definition Get :: "string list \<Rightarrow> nat \<Rightarrow> string" where
  "Get a n = (if n < length a then a ! n else [])"

definition Tail :: "string list \<Rightarrow> string list" where
  "Tail a = (if 2 \<le> length a then drop 1 a else [])"

section \<open>Requests, messages and observable events\<close>

record PolicyAssociationReq =
  User :: string
  Group :: string
  Policies :: "string list"

record IDPListItem =
  Name :: string
  RoleARN :: string
  Enabled :: bool

datatype message =
    configSetMessage (targetAlias: string) (restart: bool)
  | userPolicyMessage (op: string) (Policy: string) (UserOrGroup: string) (IsGroup: bool)
  | idpCfgList "IDPListItem list"

text \<open>
  What a command run does to the outside world, in order. \<open>ShowHelp\<close> is the help text
  of \<open>showCommandHelpAndExit\<close>; \<open>NewAdminClient\<close> is the call of \<open>newAdminClient\<close>
  that resolves the alias into an admin client (the session handle); the three RPC events
  are the calls of the admin client's methods (which of them send a request to the server
  is the client's matter); \<open>PrintMsg\<close> is one call of \<open>printMsg\<close>;
  \<open>Fatal\<close> is the diagnostic of a \<open>fatalIf\<close> whose error is not nil, carrying the
  message format as written in the source.
\<close>

datatype event =
    ShowHelp
  | NewAdminClient string
  | AttachPolicy PolicyAssociationReq
  | DetachPolicy PolicyAssociationReq
  | AddOrUpdateIDPConfig string string string bool
  | PrintMsg message
  | Fatal string

record outcome =
  trace :: "event list"
  exit_code :: nat

text \<open>
  The command line as the handler sees it: the positional arguments \<open>ctx.Args()\<close>,
  the values of the string flags \<open>--user\<close> and \<open>--group\<close> (\<open>ctx.String\<close> gives the
  empty string for a flag that was not supplied) and \<open>ctx.Command.Name\<close>.
\<close>

record cli_Context =
  Args :: "string list"
  flag_user :: string
  flag_group :: string
  Command_Name :: string

text \<open>
  What the handlers call but do not define is a parameter of a run: whether
  \<open>newAdminClient\<close> returns an error for an alias, what error (if any) the attach and
  detach calls of the admin client return, what \<open>AddOrUpdateIDPConfig\<close> returns (an
  error, or the restart flag), and the members of \<open>madmin.ValidIDPConfigTypes\<close>.
\<close>

record env =
  newAdminClient :: "string \<Rightarrow> string option"
  attachPolicy :: "PolicyAssociationReq \<Rightarrow> string option"
  detachPolicy :: "PolicyAssociationReq \<Rightarrow> string option"
  addOrUpdateIDPConfig :: "string \<Rightarrow> string \<Rightarrow> string \<Rightarrow> bool \<Rightarrow> string + bool"
  ValidIDPConfigTypes :: "string list"

text \<open>
  Modelled from the spec: \<open>fatalIf\<close> is not under src/. Section 7 of the specification
  says that every fatal condition terminates the process with a non-zero exit code and a
  single diagnostic line; the exit code is taken to be 1. A \<open>fatalIf\<close> whose error is
  nil does nothing.
\<close>

definition fatal_exit_code :: nat where
  "fatal_exit_code = 1"

definition fatal :: "event list \<Rightarrow> string \<Rightarrow> outcome" where
  "fatal pre msg = \<lparr>trace = pre @ [Fatal msg], exit_code = fatal_exit_code\<rparr>"

text \<open>
  Modelled from the spec: \<open>showCommandHelpAndExit\<close> is not under src/. A usage error
  causes help text emission and the end of the process (section 7 of the specification);
  the exit code is the last argument of the call, as the comment at the call in
  \<open>userAttachOrDetachPolicy\<close> says.
\<close>

definition showCommandHelpAndExit :: "event list \<Rightarrow> nat \<Rightarrow> outcome" where
  "showCommandHelpAndExit pre code = \<lparr>trace = pre @ [ShowHelp], exit_code = code\<rparr>"

section \<open>policy attach and policy detach\<close>

text \<open>
  The loop \<open>for _, policy := range req.Policies { printMsg(...) }\<close>.
\<close>

fun print_policies :: "string \<Rightarrow> string \<Rightarrow> bool \<Rightarrow> string list \<Rightarrow> event list" where
  "print_policies nm userOrGroup isGroup [] = []"
| "print_policies nm userOrGroup isGroup (policy # rest) =
     PrintMsg (userPolicyMessage nm policy userOrGroup isGroup)
       # print_policies nm userOrGroup isGroup rest"

text \<open>
  \<open>userAttachOrDetachPolicy\<close>. The two \<open>console.SetColor\<close> calls only register
  colours for later printing and are left out.
\<close>

definition userAttachOrDetachPolicy :: "env \<Rightarrow> cli_Context \<Rightarrow> bool \<Rightarrow> outcome" where
  "userAttachOrDetachPolicy E ctx attach =
     (if length (Args ctx) < 2 then showCommandHelpAndExit [] 1
      else
        let args = Args ctx;
            aliasedURL = Get args 0;
            req = \<lparr>User = flag_user ctx, Group = flag_group ctx, Policies = Tail args\<rparr>
        in case newAdminClient E aliasedURL of
             Some err \<Rightarrow>
               fatal [NewAdminClient aliasedURL] ''Unable to initialize admin connection.''
           | None \<Rightarrow>
               let e = (if attach then attachPolicy E req else detachPolicy E req);
                   call = (if attach then AttachPolicy req else DetachPolicy req);
                   isGroup = (if User req = [] then True else False);
                   userOrGroup = (if isGroup then Group req else User req)
               in (case e of
                     None \<Rightarrow>
                       \<lparr>trace = [NewAdminClient aliasedURL, call]
                                  @ print_policies (Command_Name ctx) userOrGroup isGroup
                                      (Policies req),
                        exit_code = 0\<rparr>
                   | Some err \<Rightarrow>
                       (if attach
                        then fatal [NewAdminClient aliasedURL, call] ''Unable to attach the policy''
                        else fatal [NewAdminClient aliasedURL, call] ''Unable to detach the policy'')))"

definition mainAdminPolicyAttach :: "env \<Rightarrow> cli_Context \<Rightarrow> outcome" where
  "mainAdminPolicyAttach E ctx = userAttachOrDetachPolicy E ctx True"

text \<open>Observations on a trace.\<close>

fun is_network :: "event \<Rightarrow> bool" where
  "is_network (NewAdminClient a) = True"
| "is_network (AttachPolicy r) = True"
| "is_network (DetachPolicy r) = True"
| "is_network (AddOrUpdateIDPConfig t n b x) = True"
| "is_network ev = False"

fun is_rpc :: "event \<Rightarrow> bool" where
  "is_rpc (AttachPolicy r) = True"
| "is_rpc (DetachPolicy r) = True"
| "is_rpc (AddOrUpdateIDPConfig t n b x) = True"
| "is_rpc ev = False"

fun is_fatal :: "event \<Rightarrow> bool" where
  "is_fatal (Fatal m) = True"
| "is_fatal ev = False"

fun printed :: "event list \<Rightarrow> message list" where
  "printed [] = []"
| "printed (PrintMsg m # evs) = m # printed evs"
| "printed (ev # evs) = printed evs"




section \<open>idp set\<close>

text \<open>
  \<open>validateIDType\<close>: a fatal diagnostic when the type is not a member of
  \<open>madmin.ValidIDPConfigTypes\<close>, nothing otherwise. The result is the diagnostic, if any.
\<close>

definition validateIDType :: "env \<Rightarrow> string \<Rightarrow> string option" where
  "validateIDType E idpType =
     (if idpType \<notin> set (ValidIDPConfigTypes E)
      then Some ''IDP type must be one of %v'' else None)"

text \<open>
  Lines 105 to 112 of \<open>mainAdminIDPSet\<close>: the configuration name and the body blob.
  They are reached only with at least three arguments, so the slices \<open>args[2:]\<close> and
  \<open>args[3:]\<close> are in range.
\<close>

definition cfg_name_and_input :: "string list \<Rightarrow> string \<times> string" where
  "cfg_name_and_input args =
     (let (cfgName, input) =
            (if \<not> strings_Contains (Get args 2) ''=''
             then (Get args 2, drop 3 args)
             else ([], drop 2 args));
          inputCfg = strings_Join input '' ''
      in (cfgName, inputCfg))"

definition mainAdminIDPSet :: "env \<Rightarrow> cli_Context \<Rightarrow> outcome" where
  "mainAdminIDPSet E ctx =
     (if length (Args ctx) < 3 then showCommandHelpAndExit [] 1
      else
        let args = Args ctx;
            aliasedURL = Get args 0
        in case newAdminClient E aliasedURL of
             Some err \<Rightarrow>
               fatal [NewAdminClient aliasedURL] ''Unable to initialize admin connection.''
           | None \<Rightarrow>
               let idpType = Get args 1
               in (case validateIDType E idpType of
                     Some msg \<Rightarrow> fatal [NewAdminClient aliasedURL] msg
                   | None \<Rightarrow>
                       let (cfgName, inputCfg) = cfg_name_and_input args;
                           call = AddOrUpdateIDPConfig idpType cfgName inputCfg False
                       in (case addOrUpdateIDPConfig E idpType cfgName inputCfg False of
                             Inl e \<Rightarrow>
                               fatal [NewAdminClient aliasedURL, call]
                                 ''Unable to set IDP config for '%s' to server''
                           | Inr restart' \<Rightarrow>
                               \<lparr>trace = [NewAdminClient aliasedURL, call,
                                         PrintMsg (configSetMessage aliasedURL restart')],
                                exit_code = 0\<rparr>)))"

section \<open>The styled rendering of an identity-provider listing\<close>

text \<open>
  The measuring loop of \<open>idpCfgList.String\<close>, started at the lengths of the two
  header words. Lengths are byte counts far below the range of a Go \<open>int\<close>, so they are
  natural numbers here.
\<close>

fun measure_loop :: "IDPListItem list \<Rightarrow> nat \<Rightarrow> nat \<Rightarrow> nat \<times> nat" where
  "measure_loop [] maxNameWidth maxRoleARNWidth = (maxNameWidth, maxRoleARNWidth)"
| "measure_loop (item # rest) maxNameWidth maxRoleARNWidth =
     (let name = (if Name item = ''_'' then ''(default)'' else Name item);
          maxNameWidth' = (if maxNameWidth < length name then length name else maxNameWidth);
          maxRoleARNWidth' =
            (if maxRoleARNWidth < length (RoleARN item) then length (RoleARN item)
             else maxRoleARNWidth)
      in measure_loop rest maxNameWidth' maxRoleARNWidth')"

definition enabledWidth :: nat where
  "enabledWidth = 5"

text \<open>The three widths handed to the column styles: enabled, name, role ARN.\<close>

definition column_widths :: "IDPListItem list \<Rightarrow> nat \<times> nat \<times> nat" where
  "column_widths i =
     (let (maxNameWidth, maxRoleARNWidth) = measure_loop i (length ''Name'') (length ''RoleArn'')
      in (enabledWidth, maxNameWidth + 2, maxRoleARNWidth + 2))"

text \<open>
  A lipgloss style, as far as this code sets it. Rendering itself belongs to the
  presentation toolkit and is a parameter \<open>R\<close> below.
\<close>

datatype Position = Left | Center | Right

record Style =
  Align :: Position
  PaddingLeft :: nat
  PaddingRight :: nat
  Width :: nat
  Foreground :: "string option"
  Bold :: bool
  Faint :: bool

definition NewStyle :: Style where
  "NewStyle = \<lparr>Align = Left, PaddingLeft = 0, PaddingRight = 0, Width = 0,
               Foreground = None, Bold = False, Faint = False\<rparr>"

definition styles :: "IDPListItem list \<Rightarrow> Style list" where
  "styles i =
     (let (enabledW, maxNameWidth, maxRoleARNWidth) = column_widths i;
          enabledColStyle = NewStyle\<lparr>Align := Center, PaddingLeft := 1, PaddingRight := 1,
                                     Width := enabledW\<rparr>;
          nameColStyle = NewStyle\<lparr>Align := Right, PaddingLeft := 1, PaddingRight := 1,
                                  Width := maxNameWidth\<rparr>;
          arnColStyle = NewStyle\<lparr>Align := Left, PaddingLeft := 1, PaddingRight := 1,
                                 Foreground := Some ''#04B575'', Width := maxRoleARNWidth\<rparr>
      in [enabledColStyle, nameColStyle, arnColStyle])"

text \<open>The two glyphs, as their UTF-8 bytes: U+1F534 (off) and U+1F7E2 (on).\<close>

definition enabledOff :: string where
  "enabledOff = [CHR 0xF0, CHR 0x9F, CHR 0x94, CHR 0xB4]"

definition enabledOn :: string where
  "enabledOn = [CHR 0xF0, CHR 0x9F, CHR 0x9F, CHR 0xA2]"

text \<open>
  One row of the table before rendering: for each of the three cells the style and the
  text that \<open>Render\<close> is called with, the name cell being replaced for the item named
  \<open>_\<close>.
\<close>

definition row_cells :: "Style list \<Rightarrow> IDPListItem \<Rightarrow> (Style \<times> string) list" where
  "row_cells sts item =
     (let enabled = (if Enabled item then enabledOn else enabledOff);
          line = [(sts ! 0, enabled), (sts ! 1, Name item), (sts ! 2, RoleARN item)]
      in if Name item = ''_''
         then line[1 := ((sts ! 1)\<lparr>Faint := True\<rparr>, ''(default)'')]
         else line)"

definition header_cells :: "Style list \<Rightarrow> (Style \<times> string) list" where
  "header_cells sts =
     map (\<lambda>(st, hdr). (st\<lparr>Bold := True, Foreground := Some ''#6495ed'', Align := Center\<rparr>, hdr))
       (zip sts [''On?'', ''Name'', ''RoleARN''])"

definition render_line :: "(Style \<Rightarrow> string \<Rightarrow> string) \<Rightarrow> (Style \<times> string) list \<Rightarrow> string" where
  "render_line R cells = strings_Join (map (\<lambda>(st, txt). R st txt) cells) []"

text \<open>
  \<open>idpCfgList.String\<close>: \<open>R\<close> is lipgloss's \<open>Render\<close> of a cell and \<open>box\<close> the
  rendering of the rounded border around the joined lines.
\<close>

definition idpCfgList_String ::
  "(Style \<Rightarrow> string \<Rightarrow> string) \<Rightarrow> (string \<Rightarrow> string) \<Rightarrow> IDPListItem list \<Rightarrow> string" where
  "idpCfgList_String R box i =
     (let sts = styles i;
          lines = render_line R (header_cells sts) # map (\<lambda>item. render_line R (row_cells sts item)) i
      in box (strings_Join lines [CHR 0x0A]))"

section \<open>Re-splitting a body blob\<close>

text \<open>
  The specification's re-splitting of a blob on single spaces, which no source file
  performs: every space ends a token, so a blob with n spaces has n + 1 tokens and the
  empty blob has the single empty token (as \<open>strings.Split(s, " ")\<close> does).
\<close>

fun split_spaces :: "string \<Rightarrow> string list" where
  "split_spaces [] = [[]]"
| "split_spaces (c # cs) =
     (if c = CHR '' '' then [] # split_spaces cs
      else (case split_spaces cs of
              [] \<Rightarrow> [[c]]
            | w # ws \<Rightarrow> (c # w) # ws))"

text \<open>
  The specification's wording of the body blob, tokens joined with single spaces: every
  token is preceded by one space and the leading space is dropped.
\<close>

definition joined_with_single_spaces :: "string list \<Rightarrow> string" where
  "joined_with_single_spaces tokens = tl (concat (map (\<lambda>t. CHR '' '' # t) tokens))"

section \<open>Concrete invocations\<close>

text \<open>An environment where the alias resolves, every RPC succeeds and the valid
  provider kinds are \<open>openid\<close> and \<open>ldap\<close>; and one where the RPCs fail.\<close>

definition env_ok :: env where
  "env_ok = \<lparr>newAdminClient = (\<lambda>a. None), attachPolicy = (\<lambda>r. None),
             detachPolicy = (\<lambda>r. None),
             addOrUpdateIDPConfig = (\<lambda>t n b x. Inr False),
             ValidIDPConfigTypes = [''openid'', ''ldap'']\<rparr>"

definition env_rpc_fails :: env where
  "env_rpc_fails = \<lparr>newAdminClient = (\<lambda>a. None), attachPolicy = (\<lambda>r. Some ''policy not found''),
             detachPolicy = (\<lambda>r. Some ''policy not found''),
             addOrUpdateIDPConfig = (\<lambda>t n b x. Inl ''bad config''),
             ValidIDPConfigTypes = [''openid'', ''ldap'']\<rparr>"

definition ctx_alias_only :: cli_Context where
  "ctx_alias_only = \<lparr>Args = [''myminio''], flag_user = ''james'', flag_group = [],
                     Command_Name = ''attach''\<rparr>"

definition ctx_readonly_james :: cli_Context where
  "ctx_readonly_james = \<lparr>Args = [''myminio'', ''readonly''], flag_user = ''james'',
                         flag_group = [], Command_Name = ''attach''\<rparr>"



definition ctx_bob :: cli_Context where
  "ctx_bob = \<lparr>Args = [''A'', ''policy1'', ''policy2''], flag_user = ''bob'',
              flag_group = [], Command_Name = ''attach''\<rparr>"

definition ctx_three_policies :: cli_Context where
  "ctx_three_policies = \<lparr>Args = [''A'', ''p1'', ''p2'', ''p3''], flag_user = [],
                         flag_group = ''legal'', Command_Name = ''attach''\<rparr>"

definition ctx_set_two_args :: cli_Context where
  "ctx_set_two_args = \<lparr>Args = [''play/'', ''openid''], flag_user = [], flag_group = [],
                       Command_Name = ''set''\<rparr>"

definition ctx_set_saml :: cli_Context where
  "ctx_set_saml = \<lparr>Args = [''play/'', ''saml'', ''client_id=app''], flag_user = [],
                   flag_group = [], Command_Name = ''set''\<rparr>"

definition ctx_set_named :: cli_Context where
  "ctx_set_named = \<lparr>Args = [''play/'', ''openid'', ''dex_test'', ''client_id=app'', ''scopes=openid''],
                    flag_user = [], flag_group = [], Command_Name = ''set''\<rparr>"

definition ctx_set_default :: cli_Context where
  "ctx_set_default = \<lparr>Args = [''play/'', ''ldap'', ''server_addr=host:686'', ''tls=on''],
                      flag_user = [], flag_group = [], Command_Name = ''set''\<rparr>"

definition ctx_set_bare_name :: cli_Context where
  "ctx_set_bare_name = \<lparr>Args = [''play/'', ''openid'', ''dex_test''], flag_user = [],
                        flag_group = [], Command_Name = ''set''\<rparr>"

definition listing_example :: "IDPListItem list" where
  "listing_example = [\<lparr>Name = ''_'', RoleARN = ''arn:x'', Enabled = True\<rparr>,
                      \<lparr>Name = ''svc'', RoleARN = [], Enabled = False\<rparr>]"

text \<open>
  A cell renderer and a border for examples: the renderer marks faint text and ends every
  cell with a bar, the border leaves the table as it is.
\<close>

definition mark_Render :: "Style \<Rightarrow> string \<Rightarrow> string" where
  "mark_Render st txt = (if Faint st then ''<faint>'' @ txt else txt) @ ''|''"

definition no_box :: "string \<Rightarrow> string" where
  "no_box content = content"

section \<open>Auxiliary facts\<close>

lemma Tail_eq_tl: "Tail a = tl a"
  by (cases a) (auto simp: Tail_def drop_Suc Suc_le_eq)

lemma printed_print_policies:
  "printed (print_policies nm u g ps) = map (\<lambda>p. userPolicyMessage nm p u g) ps"
  by (induction ps) simp_all


lemma fatal_print_policies: "filter is_fatal (print_policies nm u g ps) = []"
  by (induction ps) simp_all

lemma dispatch_unfold:
  assumes "2 \<le> length (Args ctx)" and "newAdminClient E (Args ctx ! 0) = None"
  shows "userAttachOrDetachPolicy E ctx attach =
     (case (if attach then attachPolicy E else detachPolicy E)
             \<lparr>User = flag_user ctx, Group = flag_group ctx, Policies = tl (Args ctx)\<rparr> of
        None \<Rightarrow>
          \<lparr>trace = [NewAdminClient (Args ctx ! 0),
                    (if attach then AttachPolicy else DetachPolicy)
                      \<lparr>User = flag_user ctx, Group = flag_group ctx, Policies = tl (Args ctx)\<rparr>]
                   @ print_policies (Command_Name ctx)
                       (if flag_user ctx = [] then flag_group ctx else flag_user ctx)
                       (flag_user ctx = []) (tl (Args ctx)),
           exit_code = 0\<rparr>
      | Some err \<Rightarrow>
          fatal [NewAdminClient (Args ctx ! 0),
                 (if attach then AttachPolicy else DetachPolicy)
                   \<lparr>User = flag_user ctx, Group = flag_group ctx, Policies = tl (Args ctx)\<rparr>]
            (if attach then ''Unable to attach the policy'' else ''Unable to detach the policy''))"
proof -
  have enough: "\<not> length (Args ctx) < 2" using assms(1) by simp
  have first: "Get (Args ctx) 0 = Args ctx ! 0" using assms(1) by (cases "Args ctx") (simp_all add: Get_def)
  show ?thesis
  proof (cases attach)
    case True
    then show ?thesis
      by (cases "attachPolicy E \<lparr>User = flag_user ctx, Group = flag_group ctx,
                                   Policies = tl (Args ctx)\<rparr>")
         (simp_all add: userAttachOrDetachPolicy_def Let_def enough first assms(2) Tail_eq_tl)
  next
    case False
    then show ?thesis
      by (cases "detachPolicy E \<lparr>User = flag_user ctx, Group = flag_group ctx,
                                   Policies = tl (Args ctx)\<rparr>")
         (simp_all add: userAttachOrDetachPolicy_def Let_def enough first assms(2) Tail_eq_tl)
  qed
qed

lemma Get_nth: "n < length a \<Longrightarrow> Get a n = a ! n"
  by (simp add: Get_def)

lemma strings_Contains_eq: "strings_Contains s ''='' \<longleftrightarrow> CHR ''='' \<in> set s"
  by (induction s) auto

lemma write_rest_concat: "write_rest sep ss = concat (map (\<lambda>s. sep @ s) ss)"
  by (induction ss) simp_all

lemma strings_Join_space: "strings_Join ts '' '' = joined_with_single_spaces ts"
proof (cases ts)
  case Nil
  then show ?thesis by (simp add: joined_with_single_spaces_def)
next
  case (Cons t rest)
  then show ?thesis
    by (cases rest) (simp_all add: joined_with_single_spaces_def write_rest_concat)
qed

lemma cfg_name_and_input_eq:
  assumes "3 \<le> length args"
  shows "cfg_name_and_input args =
           (if CHR ''='' \<notin> set (args ! 2)
            then (args ! 2, joined_with_single_spaces (drop 3 args))
            else ([], joined_with_single_spaces (drop 2 args)))"
  using assms
  by (simp add: cfg_name_and_input_def Get_def strings_Contains_eq strings_Join_space)

lemma idp_set_unfold:
  assumes "3 \<le> length (Args ctx)"
  shows "mainAdminIDPSet E ctx =
     (case newAdminClient E (Args ctx ! 0) of
        Some err \<Rightarrow>
          fatal [NewAdminClient (Args ctx ! 0)] ''Unable to initialize admin connection.''
      | None \<Rightarrow>
          (case validateIDType E (Args ctx ! 1) of
             Some msg \<Rightarrow> fatal [NewAdminClient (Args ctx ! 0)] msg
           | None \<Rightarrow>
               (case addOrUpdateIDPConfig E (Args ctx ! 1) (fst (cfg_name_and_input (Args ctx)))
                       (snd (cfg_name_and_input (Args ctx))) False of
                  Inl e \<Rightarrow>
                    fatal [NewAdminClient (Args ctx ! 0),
                           AddOrUpdateIDPConfig (Args ctx ! 1) (fst (cfg_name_and_input (Args ctx)))
                             (snd (cfg_name_and_input (Args ctx))) False]
                      ''Unable to set IDP config for '%s' to server''
                | Inr restart' \<Rightarrow>
                    \<lparr>trace = [NewAdminClient (Args ctx ! 0),
                              AddOrUpdateIDPConfig (Args ctx ! 1) (fst (cfg_name_and_input (Args ctx)))
                                (snd (cfg_name_and_input (Args ctx))) False,
                              PrintMsg (configSetMessage (Args ctx ! 0) restart')],
                     exit_code = 0\<rparr>)))"
proof -
  have enough: "\<not> length (Args ctx) < 3" using assms by simp
  have l0: "0 < length (Args ctx)" and l1: "1 < length (Args ctx)"
    using assms by linarith+
  have g0: "Get (Args ctx) 0 = Args ctx ! 0" by (rule Get_nth [OF l0])
  have g1: "Get (Args ctx) 1 = Args ctx ! 1" by (rule Get_nth [OF l1])
  show ?thesis
    unfolding mainAdminIDPSet_def Let_def
    by (simp only: enough if_False g0 g1 case_prod_unfold)
qed

lemma split_spaces_token: "CHR '' '' \<notin> set t \<Longrightarrow> split_spaces t = [t]"
  by (induction t) auto

lemma split_spaces_append:
  "CHR '' '' \<notin> set t \<Longrightarrow> split_spaces (t @ CHR '' '' # rest) = t # split_spaces rest"
  by (induction t) auto

lemma split_spaces_write_rest:
  "CHR '' '' \<notin> set t \<Longrightarrow> \<forall>s \<in> set ss. CHR '' '' \<notin> set s
   \<Longrightarrow> split_spaces (t @ write_rest '' '' ss) = t # ss"
proof (induction ss arbitrary: t)
  case Nil
  then show ?case by (simp add: split_spaces_token)
next
  case (Cons s ss)
  have "split_spaces (t @ write_rest '' '' (s # ss))
          = t # split_spaces (s @ write_rest '' '' ss)"
    using Cons.prems(1) by (simp add: split_spaces_append)
  also have "split_spaces (s @ write_rest '' '' ss) = s # ss"
    using Cons.prems(2) by (intro Cons.IH) simp_all
  finally show ?case .
qed

lemma strings_Join_Cons: "strings_Join (t # ts) sep = t @ write_rest sep ts"
  by (cases ts) simp_all

lemma measure_loop_fold:
  "measure_loop i a b =
     (fold max (map (\<lambda>item. length (if Name item = ''_'' then ''(default)'' else Name item)) i) a,
      fold max (map (\<lambda>item. length (RoleARN item)) i) b)"
proof (induction i arbitrary: a b)
  case Nil
  show ?case by simp
next
  case (Cons item rest)
  have name_step: "(if a < n then n else a) = max n a" for n :: nat
    by (simp add: max_def)
  have arn_step: "(if b < n then n else b) = max n b" for n :: nat
    by (simp add: max_def)
  show ?case
    by (simp only: measure_loop.simps Let_def Cons.IH name_step arn_step list.map fold_simps
          comp_def)
qed

lemma Max_insert_fold: "Max (insert a (f ` set xs)) = fold max (map f xs) (a::nat)"
proof -
  have "Max (insert a (f ` set xs)) = Max (set (a # map f xs))" by simp
  also have "\<dots> = fold max (map f xs) a" by (rule Max.set_eq_fold)
  finally show ?thesis .
qed

lemma measure_loop_Max:
  "measure_loop i a b =
     (Max (insert a ((\<lambda>item. length (if Name item = ''_'' then ''(default)'' else Name item)) ` set i)),
      Max (insert b ((\<lambda>item. length (RoleARN item)) ` set i)))"
  by (simp only: measure_loop_fold Max_insert_fold)

lemma styles_eq:
  "styles i =
     [NewStyle\<lparr>Align := Center, PaddingLeft := 1, PaddingRight := 1,
                Width := fst (column_widths i)\<rparr>,
      NewStyle\<lparr>Align := Right, PaddingLeft := 1, PaddingRight := 1,
                Width := fst (snd (column_widths i))\<rparr>,
      NewStyle\<lparr>Align := Left, PaddingLeft := 1, PaddingRight := 1,
                Foreground := Some ''#04B575'', Width := snd (snd (column_widths i))\<rparr>]"
  by (simp add: styles_def Let_def case_prod_unfold)

lemma enabled_cell: "snd (row_cells sts item ! 0) = (if Enabled item then enabledOn else enabledOff)"
  by (simp add: row_cells_def Let_def)

section \<open>Claims about policy attach and policy detach\<close>

text \<open>
  C1. As stated, the claim counts the tokens that follow the alias: an invocation with
  the alias and fewer than two further positional arguments would be a usage error. The
  handler compares the number of positional arguments, the alias included, with 2. What
  holds: every attach or detach invocation with fewer than 2 positional arguments in all
  (none, or the alias alone) shows the command help and exits with code 1, and neither
  the admin client is created nor an RPC issued.
\<close>

theorem attach_detach_usage_error:
  assumes "length (Args ctx) < 2"
  shows "userAttachOrDetachPolicy E ctx attach = \<lparr>trace = [ShowHelp], exit_code = 1\<rparr>
         \<and> filter is_network (trace (userAttachOrDetachPolicy E ctx attach)) = []"
  using assms by (simp add: userAttachOrDetachPolicy_def showCommandHelpAndExit_def)

theorem attach_detach_usage_error_witness:
  "length (Args ctx_alias_only) < 2
   \<and> userAttachOrDetachPolicy env_ok ctx_alias_only True = \<lparr>trace = [ShowHelp], exit_code = 1\<rparr>
   \<and> filter is_network (trace (userAttachOrDetachPolicy env_ok ctx_alias_only True)) = []"
  using attach_detach_usage_error [of ctx_alias_only env_ok True]
  by (simp add: ctx_alias_only_def)

text \<open>
  The alias followed by a single policy name, the first example of the command's own help
  text, has one argument after the alias and is dispatched: the admin client is created,
  the attach RPC is issued and the run ends with exit code 0.
\<close>

theorem alias_and_one_policy_is_dispatched:
  "length (tl (Args ctx_readonly_james)) < 2
   \<and> userAttachOrDetachPolicy env_ok ctx_readonly_james True =
       \<lparr>trace = [NewAdminClient ''myminio'',
                 AttachPolicy \<lparr>User = ''james'', Group = [], Policies = [''readonly'']\<rparr>,
                 PrintMsg (userPolicyMessage ''attach'' ''readonly'' ''james'' False)],
        exit_code = 0\<rparr>"
  by (simp add: userAttachOrDetachPolicy_def ctx_readonly_james_def env_ok_def Get_def Tail_def
        Let_def)



text \<open>
  C6. When the attach or detach RPC succeeds, the messages printed are exactly one
  \<open>userPolicyMessage\<close> per policy name of the command line, in command-line order
  and with duplicates kept: the list of their \<open>Policy\<close> fields is the list of
  arguments after the alias. No fatal diagnostic is produced and the exit code is 0.
\<close>

theorem attach_detach_success_messages:
  assumes "2 \<le> length (Args ctx)" and "newAdminClient E (Args ctx ! 0) = None"
    and "(if attach then attachPolicy E else detachPolicy E)
           \<lparr>User = flag_user ctx, Group = flag_group ctx, Policies = tl (Args ctx)\<rparr> = None"
  shows "printed (trace (userAttachOrDetachPolicy E ctx attach)) =
           map (\<lambda>policy. userPolicyMessage (Command_Name ctx) policy
                  (if flag_user ctx = [] then flag_group ctx else flag_user ctx)
                  (flag_user ctx = []))
               (tl (Args ctx))
         \<and> map Policy (printed (trace (userAttachOrDetachPolicy E ctx attach))) = tl (Args ctx)
         \<and> filter is_fatal (trace (userAttachOrDetachPolicy E ctx attach)) = []
         \<and> exit_code (userAttachOrDetachPolicy E ctx attach) = 0"
  using assms(3)
  by (simp add: dispatch_unfold [OF assms(1,2)] printed_print_policies fatal_print_policies
        comp_def)

theorem attach_detach_success_messages_witness:
  "printed (trace (userAttachOrDetachPolicy env_ok ctx_bob True)) =
     [userPolicyMessage ''attach'' ''policy1'' ''bob'' False,
      userPolicyMessage ''attach'' ''policy2'' ''bob'' False]
   \<and> exit_code (userAttachOrDetachPolicy env_ok ctx_bob True) = 0"
  using attach_detach_success_messages [of ctx_bob env_ok True]
  by (simp add: ctx_bob_def env_ok_def)

text \<open>
  C7. When the attach or detach RPC fails, whatever the number of policies requested, no
  message is printed, exactly one fatal diagnostic is produced and the process ends with
  the exit code of \<open>fatalIf\<close>, which is not zero.
\<close>

theorem attach_detach_rpc_failure:
  assumes "2 \<le> length (Args ctx)" and "newAdminClient E (Args ctx ! 0) = None"
    and "(if attach then attachPolicy E else detachPolicy E)
           \<lparr>User = flag_user ctx, Group = flag_group ctx, Policies = tl (Args ctx)\<rparr> = Some err"
  shows "printed (trace (userAttachOrDetachPolicy E ctx attach)) = []
         \<and> filter is_fatal (trace (userAttachOrDetachPolicy E ctx attach)) =
             [Fatal (if attach then ''Unable to attach the policy''
                     else ''Unable to detach the policy'')]
         \<and> exit_code (userAttachOrDetachPolicy E ctx attach) = fatal_exit_code
         \<and> fatal_exit_code \<noteq> 0"
  using assms(3)
  by (simp add: dispatch_unfold [OF assms(1,2)] fatal_def fatal_exit_code_def)

theorem attach_detach_rpc_failure_witness:
  "length (tl (Args ctx_three_policies)) = 3
   \<and> printed (trace (userAttachOrDetachPolicy env_rpc_fails ctx_three_policies True)) = []
   \<and> filter is_fatal (trace (userAttachOrDetachPolicy env_rpc_fails ctx_three_policies True)) =
        [Fatal ''Unable to attach the policy'']
   \<and> exit_code (userAttachOrDetachPolicy env_rpc_fails ctx_three_policies True) = 1"
  using attach_detach_rpc_failure [of ctx_three_policies env_rpc_fails True "''policy not found''"]
  by (simp add: ctx_three_policies_def env_rpc_fails_def fatal_exit_code_def)

section \<open>Claims about idp set\<close>

text \<open>
  C2. As stated, the claim has the admin client created only after all argument
  validation, so that an unknown provider kind never reaches \<open>newAdminClient\<close>. The
  handler checks the argument count first, then creates the admin client, and only then
  validates the provider kind. What holds: an invocation with fewer than 3 arguments ends
  with the usage help and no network activity at all; an invocation with at least 3
  arguments whose provider kind is not a valid one creates the admin client for its alias
  and is then rejected by a fatal diagnostic; in both cases no RPC is issued.
\<close>

theorem idp_set_validation_order:
  assumes "length (Args ctx) < 3 \<or> Args ctx ! 1 \<notin> set (ValidIDPConfigTypes E)"
  shows "filter is_rpc (trace (mainAdminIDPSet E ctx)) = []
         \<and> filter is_network (trace (mainAdminIDPSet E ctx)) =
             (if length (Args ctx) < 3 then [] else [NewAdminClient (Args ctx ! 0)])
         \<and> last (trace (mainAdminIDPSet E ctx)) =
             (if length (Args ctx) < 3 then ShowHelp
              else if newAdminClient E (Args ctx ! 0) = None
                   then Fatal ''IDP type must be one of %v''
                   else Fatal ''Unable to initialize admin connection.'')"
proof (cases "length (Args ctx) < 3")
  case True
  then show ?thesis by (simp add: mainAdminIDPSet_def showCommandHelpAndExit_def)
next
  case False
  then have enough: "3 \<le> length (Args ctx)" by simp
  from False assms have "validateIDType E (Args ctx ! 1) = Some ''IDP type must be one of %v''"
    by (simp add: validateIDType_def)
  with False show ?thesis
    by (simp add: idp_set_unfold [OF enough] fatal_def split: option.split)
qed

theorem idp_set_validation_order_witness:
  "Args ctx_set_saml ! 1 \<notin> set (ValidIDPConfigTypes env_ok)
   \<and> filter is_rpc (trace (mainAdminIDPSet env_ok ctx_set_saml)) = []
   \<and> filter is_network (trace (mainAdminIDPSet env_ok ctx_set_saml)) = [NewAdminClient ''play/'']
   \<and> last (trace (mainAdminIDPSet env_ok ctx_set_saml)) = Fatal ''IDP type must be one of %v''
   \<and> filter is_network (trace (mainAdminIDPSet env_ok ctx_set_two_args)) = []
   \<and> last (trace (mainAdminIDPSet env_ok ctx_set_two_args)) = ShowHelp"
  using idp_set_validation_order [of ctx_set_saml env_ok]
        idp_set_validation_order [of ctx_set_two_args env_ok]
  by (simp add: ctx_set_saml_def ctx_set_two_args_def env_ok_def)

text \<open>
  With the kind \<open>saml\<close>, which is not valid, the admin client is created for the alias
  before the invocation is rejected.
\<close>

theorem session_before_kind_validation:
  "Args ctx_set_saml ! 1 \<notin> set (ValidIDPConfigTypes env_ok)
   \<and> mainAdminIDPSet env_ok ctx_set_saml =
       \<lparr>trace = [NewAdminClient ''play/'', Fatal ''IDP type must be one of %v''],
        exit_code = fatal_exit_code\<rparr>"
  by (simp add: mainAdminIDPSet_def ctx_set_saml_def env_ok_def Get_def validateIDType_def
        fatal_def Let_def)

text \<open>
  C5. For every argument list with at least 3 tokens: when the third token has no
  \<open>=\<close> it is the configuration name and the body blob is the tokens after it joined
  with single spaces; otherwise the configuration name is empty and the body blob is the
  tokens from the third on joined with single spaces. When the alias resolves and the
  provider kind is valid, the one RPC issued carries exactly that name and that blob.
\<close>

theorem idp_set_name_and_body:
  assumes "3 \<le> length (Args ctx)"
  shows "cfg_name_and_input (Args ctx) =
           (if CHR ''='' \<notin> set (Args ctx ! 2)
            then (Args ctx ! 2, joined_with_single_spaces (drop 3 (Args ctx)))
            else ([], joined_with_single_spaces (drop 2 (Args ctx))))
         \<and> (newAdminClient E (Args ctx ! 0) = None \<and> validateIDType E (Args ctx ! 1) = None
              \<longrightarrow> filter is_rpc (trace (mainAdminIDPSet E ctx)) =
                    [AddOrUpdateIDPConfig (Args ctx ! 1) (fst (cfg_name_and_input (Args ctx)))
                       (snd (cfg_name_and_input (Args ctx))) False])"
  by (simp add: cfg_name_and_input_eq [OF assms] idp_set_unfold [OF assms] fatal_def
        split: sum.split)

theorem idp_set_name_and_body_witness:
  "cfg_name_and_input (Args ctx_set_named) = (''dex_test'', ''client_id=app scopes=openid'')
   \<and> filter is_rpc (trace (mainAdminIDPSet env_ok ctx_set_named)) =
        [AddOrUpdateIDPConfig ''openid'' ''dex_test'' ''client_id=app scopes=openid'' False]
   \<and> cfg_name_and_input (Args ctx_set_default) = ([], ''server_addr=host:686 tls=on'')
   \<and> filter is_rpc (trace (mainAdminIDPSet env_ok ctx_set_default)) =
        [AddOrUpdateIDPConfig ''ldap'' [] ''server_addr=host:686 tls=on'' False]"
  using idp_set_name_and_body [of ctx_set_named env_ok]
        idp_set_name_and_body [of ctx_set_default env_ok]
  by (simp add: ctx_set_named_def ctx_set_default_def env_ok_def validateIDType_def
        joined_with_single_spaces_def)

text \<open>
  C10. An invocation with exactly 3 arguments whose third token has no \<open>=\<close> passes the
  arity check: when the alias resolves and the provider kind is valid, no usage help is
  shown and the RPC is issued with the third token as configuration name and the empty
  string as body blob. The witness is such an invocation.
\<close>

theorem idp_set_bare_name_only:
  assumes "length (Args ctx) = 3" and "CHR ''='' \<notin> set (Args ctx ! 2)"
    and "newAdminClient E (Args ctx ! 0) = None"
    and "Args ctx ! 1 \<in> set (ValidIDPConfigTypes E)"
  shows "ShowHelp \<notin> set (trace (mainAdminIDPSet E ctx))
         \<and> filter is_rpc (trace (mainAdminIDPSet E ctx)) =
             [AddOrUpdateIDPConfig (Args ctx ! 1) (Args ctx ! 2) [] False]"
proof -
  have enough: "3 \<le> length (Args ctx)" using assms(1) by simp
  have valid: "validateIDType E (Args ctx ! 1) = None"
    using assms(4) by (simp add: validateIDType_def)
  have parsed: "cfg_name_and_input (Args ctx) = (Args ctx ! 2, [])"
    using assms(1,2) by (simp add: cfg_name_and_input_eq [OF enough] joined_with_single_spaces_def)
  have run: "mainAdminIDPSet E ctx =
      (case addOrUpdateIDPConfig E (Args ctx ! 1) (Args ctx ! 2) [] False of
         Inl e \<Rightarrow>
           fatal [NewAdminClient (Args ctx ! 0),
                  AddOrUpdateIDPConfig (Args ctx ! 1) (Args ctx ! 2) [] False]
             ''Unable to set IDP config for '%s' to server''
       | Inr restart' \<Rightarrow>
           \<lparr>trace = [NewAdminClient (Args ctx ! 0),
                     AddOrUpdateIDPConfig (Args ctx ! 1) (Args ctx ! 2) [] False,
                     PrintMsg (configSetMessage (Args ctx ! 0) restart')],
            exit_code = 0\<rparr>)"
    by (simp only: idp_set_unfold [OF enough] assms(3) valid parsed option.case fst_conv snd_conv)
  show ?thesis
    unfolding run
    by (cases "addOrUpdateIDPConfig E (Args ctx ! 1) (Args ctx ! 2) [] False")
       (simp_all add: fatal_def)
qed

theorem idp_set_bare_name_only_witness:
  "mainAdminIDPSet env_ok ctx_set_bare_name =
     \<lparr>trace = [NewAdminClient ''play/'', AddOrUpdateIDPConfig ''openid'' ''dex_test'' [] False,
               PrintMsg (configSetMessage ''play/'' False)],
      exit_code = 0\<rparr>
   \<and> ShowHelp \<notin> set (trace (mainAdminIDPSet env_ok ctx_set_bare_name))"
  using idp_set_bare_name_only [of ctx_set_bare_name env_ok]
  by (simp add: mainAdminIDPSet_def ctx_set_bare_name_def env_ok_def Get_def validateIDType_def
        cfg_name_and_input_def Let_def)

text \<open>
  C8. As stated, the claim covers every token sequence without an inner space, the
  empty one included. The empty sequence and the sequence of one empty token are both
  joined to the empty blob, so no re-splitting can give back both; splitting the empty
  blob on single spaces gives one empty token. What holds: for every non-empty token
  sequence in which no token contains a space, splitting the joined blob on single
  spaces gives back the sequence.
\<close>

theorem resplit_nonempty_tokens:
  assumes "tokens \<noteq> []" and "\<forall>t \<in> set tokens. CHR '' '' \<notin> set t"
  shows "split_spaces (strings_Join tokens '' '') = tokens"
proof (cases tokens)
  case Nil
  with assms(1) show ?thesis by simp
next
  case (Cons t ts)
  with assms(2) show ?thesis
    by (simp add: strings_Join_Cons split_spaces_write_rest)
qed

theorem resplit_nonempty_tokens_witness:
  "split_spaces (strings_Join [''client_id=app'', [], ''scopes=openid''] '' '')
     = [''client_id=app'', [], ''scopes=openid'']"
  using resplit_nonempty_tokens [of "[''client_id=app'', [], ''scopes=openid'']"]
  by simp

text \<open>
  The empty body arises in the program: with three arguments and a bare name as third
  token the body tokens are \<open>args[3:]\<close>, the empty slice. Its blob is the empty string,
  which is also the blob of a single empty token, and re-splitting it does not give back
  the empty sequence.
\<close>

theorem empty_body_is_not_recovered:
  "drop 3 (Args ctx_set_bare_name) = []
   \<and> cfg_name_and_input (Args ctx_set_bare_name) = (''dex_test'', strings_Join [] '' '')
   \<and> split_spaces (strings_Join [] '' '') = [[]]
   \<and> split_spaces (strings_Join [] '' '') \<noteq> []
   \<and> strings_Join [] '' '' = strings_Join [[]] '' ''"
  by (simp add: ctx_set_bare_name_def cfg_name_and_input_def Get_def Let_def)

section \<open>Claims about the listing renderer\<close>

text \<open>
  C4. As stated, the claim has all three column widths computed as a maximum of a
  header width and the widest cell. The renderer measures the name and the role-ARN column
  only; the width of the enabled column is the constant 5. What holds, for every row set:
  the name width is the maximum of the length of \<open>Name\<close> and of the lengths of all
  displayed names (with \<open>(default)\<close> measured in place of \<open>_\<close>), plus 2; the role-ARN
  width is the maximum of the length of \<open>RoleArn\<close> and of the lengths of all role ARNs,
  plus 2; the enabled width is 5 whatever the rows, with no padding added.
\<close>

theorem column_widths_measured:
  "map Width (styles i) =
     [5,
      Max (insert (length ''Name'')
             ((\<lambda>item. length (if Name item = ''_'' then ''(default)'' else Name item)) ` set i)) + 2,
      Max (insert (length ''RoleArn'') ((\<lambda>item. length (RoleARN item)) ` set i)) + 2]"
proof -
  have widths: "column_widths i =
      (enabledWidth,
       Max (insert (length ''Name'')
              ((\<lambda>item. length (if Name item = ''_'' then ''(default)'' else Name item)) ` set i)) + 2,
       Max (insert (length ''RoleArn'') ((\<lambda>item. length (RoleARN item)) ` set i)) + 2)"
    by (simp only: column_widths_def measure_loop_Max Let_def prod.case)
  show ?thesis
    by (simp add: styles_eq widths NewStyle_def enabledWidth_def)
qed

theorem column_widths_measured_witness:
  "map Width (styles listing_example) = [5, 11, 9]"
  using column_widths_measured [of listing_example]
  by (simp add: listing_example_def)

text \<open>
  For the two example rows the enabled column is 5 wide, while the maximum of the length
  of its header \<open>On?\<close> and of the lengths of its two glyphs is 4.
\<close>

theorem enabled_width_is_not_a_maximum:
  "Width (styles listing_example ! 0) = 5
   \<and> snd (header_cells (styles listing_example) ! 0) = ''On?''
   \<and> Max (insert (length (snd (header_cells (styles listing_example) ! 0)))
            ((\<lambda>item. length (snd (row_cells (styles listing_example) item ! 0)))
               ` set listing_example)) = 4"
  by (simp add: styles_eq header_cells_def enabled_cell NewStyle_def listing_example_def
        column_widths_def enabledWidth_def enabledOn_def enabledOff_def Let_def)

text \<open>
  C9. The styled rendering is the border around the header line and one line per row, in
  row order. In the line of every row the name cell is the rendering of \<open>(default)\<close>
  in the faint name style exactly when the row's name is \<open>_\<close>, and the rendering of the
  row's own name in the name style, which is not faint, otherwise; the indicator cell is
  the rendering of one of two fixed glyphs chosen by the row's enabled flag. The two
  glyphs differ, so a renderer that keeps different texts apart renders different
  indicator cells for two rows that differ in the flag.
\<close>

theorem styled_rendering_rows:
  "idpCfgList_String R box i =
     box (strings_Join
            ((R ((styles i ! 0)\<lparr>Bold := True, Foreground := Some ''#6495ed'', Align := Center\<rparr>)
                ''On?''
              @ R ((styles i ! 1)\<lparr>Bold := True, Foreground := Some ''#6495ed'', Align := Center\<rparr>)
                  ''Name''
              @ R ((styles i ! 2)\<lparr>Bold := True, Foreground := Some ''#6495ed'', Align := Center\<rparr>)
                  ''RoleARN'')
             # map (\<lambda>item.
                      R (styles i ! 0) (if Enabled item then enabledOn else enabledOff)
                      @ R ((styles i ! 1)\<lparr>Faint := (Name item = ''_'')\<rparr>)
                          (if Name item = ''_'' then ''(default)'' else Name item)
                      @ R (styles i ! 2) (RoleARN item))
                 i)
            [CHR 0x0A])
   \<and> \<not> Faint (styles i ! 1)
   \<and> enabledOn \<noteq> enabledOff
   \<and> (inj (R (styles i ! 0)) \<longrightarrow>
        R (styles i ! 0) enabledOn \<noteq> R (styles i ! 0) enabledOff)"
proof -
  have not_faint: "\<not> Faint (styles i ! 1)"
    "(styles i ! Suc 0)\<lparr>Faint := False\<rparr> = styles i ! Suc 0"
    by (simp_all add: styles_eq NewStyle_def)
  have differ: "enabledOn \<noteq> enabledOff"
    by (simp add: enabledOn_def enabledOff_def)
  have header: "render_line R (header_cells (styles i)) =
      R ((styles i ! 0)\<lparr>Bold := True, Foreground := Some ''#6495ed'', Align := Center\<rparr>) ''On?''
      @ R ((styles i ! 1)\<lparr>Bold := True, Foreground := Some ''#6495ed'', Align := Center\<rparr>) ''Name''
      @ R ((styles i ! 2)\<lparr>Bold := True, Foreground := Some ''#6495ed'', Align := Center\<rparr>) ''RoleARN''"
    by (simp add: render_line_def header_cells_def styles_eq)
  have row: "render_line R (row_cells (styles i) item) =
      R (styles i ! 0) (if Enabled item then enabledOn else enabledOff)
      @ R ((styles i ! 1)\<lparr>Faint := (Name item = ''_'')\<rparr>)
          (if Name item = ''_'' then ''(default)'' else Name item)
      @ R (styles i ! 2) (RoleARN item)" for item
    by (simp add: render_line_def row_cells_def Let_def not_faint(2))
  have whole: "idpCfgList_String R box i =
      box (strings_Join
             (render_line R (header_cells (styles i))
              # map (\<lambda>item. render_line R (row_cells (styles i) item)) i)
             [CHR 0x0A])"
    by (simp add: idpCfgList_String_def Let_def)
  show ?thesis
    unfolding whole header row
    using not_faint(1) differ by (auto dest: injD)
qed

theorem styled_rendering_rows_witness:
  "idpCfgList_String mark_Render no_box listing_example =
     ''On?|Name|RoleARN|'' @ [CHR 0x0A]
     @ enabledOn @ ''|<faint>(default)|arn:x|'' @ [CHR 0x0A]
     @ enabledOff @ ''|svc||''
   \<and> inj (mark_Render (styles listing_example ! 0))
   \<and> mark_Render (styles listing_example ! 0) enabledOn
       \<noteq> mark_Render (styles listing_example ! 0) enabledOff"
proof -
  have one_to_one: "inj (mark_Render (styles listing_example ! 0))"
    by (simp add: inj_def mark_Render_def)
  show ?thesis
    using styled_rendering_rows [of mark_Render no_box listing_example] one_to_one
    by (simp add: mark_Render_def no_box_def listing_example_def styles_eq NewStyle_def)
qed

end
